theory Spec2Isabelle
  imports Main "HOL-Library.Word"
begin

section \<open>The macOS example of vz: resource planning, configuration, life cycle\<close>

text \<open>
  A shallow embedding of \<^verbatim>\<open>example/macOS/main.go\<close>. Go's \<^verbatim>\<open>uint\<close> and
  \<^verbatim>\<open>uint64\<close> are 64-bit words (the example only builds for macOS, where \<^verbatim>\<open>int\<close>
  and \<^verbatim>\<open>uint\<close> have 64 bits); \<open>\<le>\<close> and \<open><\<close> on words compare the unsigned
  values, as Go does for unsigned operands, and \<open>sint\<close> reads a word as a Go \<^verbatim>\<open>int\<close>.
  What the virtualization framework and the operating system answer is a parameter of
  each function.
\<close>

subsection \<open>Resource planner\<close>

type_synonym go_int = "64 word"
type_synonym uint = "64 word"
type_synonym uint64 = "64 word"

text \<open>
  \<^verbatim>\<open>computeCPUCount\<close> (lines 104-120). The arguments are what
  \<^verbatim>\<open>runtime.NumCPU()\<close>, \<^verbatim>\<open>VirtualMachineConfigurationMaximumAllowedCPUCount()\<close> and
  \<^verbatim>\<open>VirtualMachineConfigurationMinimumAllowedCPUCount()\<close> return. The subtraction is on
  \<^verbatim>\<open>int\<close> and the conversion \<^verbatim>\<open>uint(...)\<close> keeps the 64 bits.
\<close>

definition computeCPUCount :: "go_int \<Rightarrow> uint \<Rightarrow> uint \<Rightarrow> uint" where
  "computeCPUCount totalAvailableCPUs maxAllowed minAllowed =
     (let virtualCPUCount = totalAvailableCPUs - 1;
          virtualCPUCount = (if virtualCPUCount \<le> 1 then 1 else virtualCPUCount);
          virtualCPUCount = (if virtualCPUCount > maxAllowed then maxAllowed else virtualCPUCount);
          virtualCPUCount = (if virtualCPUCount < minAllowed then minAllowed else virtualCPUCount)
      in virtualCPUCount)"

text \<open>
  \<^verbatim>\<open>computeMemorySize\<close> (lines 122-134); the arguments are the platform's maximum and
  minimum allowed memory sizes.
\<close>

definition computeMemorySize :: "uint64 \<Rightarrow> uint64 \<Rightarrow> uint64" where
  "computeMemorySize maxAllowed minAllowed =
     (let memorySize = 4 * 1024 * 1024 * 1024;
          memorySize = (if memorySize > maxAllowed then maxAllowed else memorySize);
          memorySize = (if memorySize < minAllowed then minAllowed else memorySize)
      in memorySize)"

subsection \<open>Facts about 64-bit words\<close>

lemma mod_sub_once: "(m::int) \<le> x \<Longrightarrow> x < 2 * m \<Longrightarrow> x mod m = x - m"
proof -
  assume a: "m \<le> x" "x < 2 * m"
  have "x mod m = (x - m) mod m" by simp
  also have "\<dots> = x - m" using a by (intro mod_pos_pos_trivial) simp_all
  finally show ?thesis .
qed

lemma sint_uint_cases:
  "sint (w :: 64 word) = (if uint w < 2 ^ 63 then uint w else uint w - 2 ^ 64)"
proof -
  have b: "0 \<le> uint w" "uint w < 2 ^ 64"
    using uint_lt2p [of w] by simp_all
  have "sint w = sint (word_of_int (uint w) :: 64 word)" by simp
  also have "\<dots> = (uint w + 2 ^ 63) mod 2 ^ 64 - 2 ^ 63"
    by (simp only: int_word_sint) simp
  finally have s: "sint w = (uint w + 2 ^ 63) mod 2 ^ 64 - 2 ^ 63" .
  show ?thesis
  proof (cases "uint w < 2 ^ 63")
    case True
    then have "(uint w + 2 ^ 63) mod 2 ^ 64 = uint w + 2 ^ 63"
      using b by (intro mod_pos_pos_trivial) simp_all
    with s True show ?thesis by simp
  next
    case False
    then have "(uint w + 2 ^ 63) mod 2 ^ 64 = uint w + 2 ^ 63 - 2 ^ 64"
      using b by (intro mod_sub_once) simp_all
    with s False show ?thesis by simp
  qed
qed

lemma uint_pred_of_pos:
  assumes "1 \<le> sint (H :: 64 word)"
  shows "uint (H - 1) = sint H - 1"
proof -
  have b: "0 \<le> uint H" "uint H < 2 ^ 64"
    using uint_lt2p [of H] by simp_all
  have u: "sint H = uint H"
    using assms b by (simp add: sint_uint_cases split: if_splits)
  then have "uint (1 :: 64 word) \<le> uint H" using assms by simp
  then have "uint (H - 1) = uint H - uint (1 :: 64 word)"
    by (simp only: uint_sub_lem [symmetric])
  then show ?thesis using u by simp
qed

subsection \<open>The planner on well-ordered bounds\<close>

lemma computeCPUCount_uint:
  assumes "1 \<le> sint H" and "mn \<le> mx"
  shows "uint (computeCPUCount H mx mn) = max (uint mn) (min (max 1 (sint H - 1)) (uint mx))"
proof -
  have p: "uint (H - 1) = sint H - 1" by (rule uint_pred_of_pos [OF assms(1)])
  have o: "uint mn \<le> uint mx" using assms(2) by (simp add: word_le_def)
  show ?thesis
    using p o unfolding computeCPUCount_def Let_def
    by (auto simp: word_le_def word_less_def max_def min_def)
qed

lemma computeCPUCount_in_bounds:
  assumes "mn \<le> mx"
  shows "mn \<le> computeCPUCount H mx mn \<and> computeCPUCount H mx mn \<le> mx"
  using assms unfolding computeCPUCount_def Let_def
  by (auto simp: word_le_def word_less_def)

text \<open>
  C5. For a host with \<open>H \<ge> 1\<close> logical cores and bounds \<open>min \<le> max\<close>, the planned CPU count
  is \<open>max(min, min(C, max))\<close> with \<open>C = H - 1\<close> floored to 1 (stated on the integer values,
  \<open>sint\<close> reading the Go \<^verbatim>\<open>int\<close> and \<open>uint\<close> the Go \<^verbatim>\<open>uint\<close>); clamping the planned
  value into the same bounds again leaves it unchanged; and \<open>min = 1\<close>, \<open>max = 8\<close>,
  \<open>H = 5\<close> plans 4 CPUs. The planner is a function of the three platform answers, so
  equal answers give equal results.
\<close>

theorem computeCPUCount_clamp:
  assumes "1 \<le> sint H" and "mn \<le> mx"
  shows "uint (computeCPUCount H mx mn) = max (uint mn) (min (max 1 (sint H - 1)) (uint mx))
       \<and> max mn (min (computeCPUCount H mx mn) mx) = computeCPUCount H mx mn
       \<and> computeCPUCount 5 8 1 = 4"
proof -
  have a: "uint (computeCPUCount H mx mn) = max (uint mn) (min (max 1 (sint H - 1)) (uint mx))"
    by (rule computeCPUCount_uint [OF assms])
  have b: "max mn (min (computeCPUCount H mx mn) mx) = computeCPUCount H mx mn"
    using computeCPUCount_in_bounds [OF assms(2), of H] by (simp add: max_def min_def)
  have c: "computeCPUCount 5 8 1 = 4"
    by (simp add: computeCPUCount_def word_le_def word_less_def)
  from a b c show ?thesis by simp
qed

theorem computeCPUCount_clamp_witness:
  "1 \<le> sint (5 :: 64 word) \<and> (1 :: 64 word) \<le> 8
   \<and> uint (computeCPUCount 5 8 1) = 4
   \<and> max 1 (min (computeCPUCount 5 8 1) 8) = computeCPUCount 5 8 1"
proof -
  have h1: "1 \<le> sint (5 :: 64 word)" by simp
  have h2: "(1 :: 64 word) \<le> 8" by (simp add: word_le_def)
  show ?thesis
    using h1 h2 computeCPUCount_clamp [OF h1 h2] by simp
qed

text \<open>
  C8. For memory bounds \<open>min \<le> max\<close> the planned memory size is the default 4 GiB clamped
  into the bounds, \<open>max(min, min(4 GiB, max))\<close>; with \<open>min = 512 MiB\<close> and \<open>max = 8 GiB\<close>
  it is 4 GiB.
\<close>

theorem computeMemorySize_clamp:
  assumes "mn \<le> mx"
  shows "computeMemorySize mx mn = max mn (min (4 * 1024 * 1024 * 1024) mx)
       \<and> uint (computeMemorySize mx mn) = max (uint mn) (min (4 * 2 ^ 30) (uint mx))
       \<and> computeMemorySize (8 * 1024 * 1024 * 1024) (512 * 1024 * 1024) = 4 * 1024 * 1024 * 1024"
proof -
  have o: "uint mn \<le> uint mx" using assms by (simp add: word_le_def)
  have a: "computeMemorySize mx mn = max mn (min (4 * 1024 * 1024 * 1024) mx)"
    using assms unfolding computeMemorySize_def Let_def by (auto simp: max_def min_def)
  have b: "uint (computeMemorySize mx mn) = max (uint mn) (min (4 * 2 ^ 30) (uint mx))"
    using o unfolding computeMemorySize_def Let_def
    by (auto simp: word_le_def word_less_def max_def min_def)
  have c: "computeMemorySize (8 * 1024 * 1024 * 1024) (512 * 1024 * 1024) = 4 * 1024 * 1024 * 1024"
    by (simp add: computeMemorySize_def word_le_def word_less_def)
  from a b c show ?thesis by simp
qed

theorem computeMemorySize_clamp_witness:
  "(512 * 1024 * 1024 :: 64 word) \<le> 8 * 1024 * 1024 * 1024
   \<and> uint (computeMemorySize (8 * 1024 * 1024 * 1024) (512 * 1024 * 1024)) = 4294967296"
proof -
  have h: "(512 * 1024 * 1024 :: 64 word) \<le> 8 * 1024 * 1024 * 1024"
    by (simp add: word_le_def)
  show ?thesis
    using h computeMemorySize_clamp [OF h] by simp
qed

text \<open>
  C10. For bounds with \<open>min > max\<close> both planning functions return exactly \<open>min\<close>: the
  maximum is applied first and the minimum last. Their results are plain unsigned values;
  neither has an error result.
\<close>

theorem planner_inverted_bounds:
  assumes "mx < mn"
  shows "computeCPUCount H mx mn = mn \<and> computeMemorySize mx mn = mn"
  using assms unfolding computeCPUCount_def computeMemorySize_def Let_def
  by (auto simp: word_le_def word_less_def)

theorem planner_inverted_bounds_witness:
  "(2 :: 64 word) < 4 \<and> computeCPUCount 5 2 4 = 4 \<and> computeMemorySize 2 4 = 4"
proof -
  have h: "(2 :: 64 word) < 4" by (simp add: word_less_def)
  show ?thesis
    using h planner_inverted_bounds [OF h, of 5] by simp
qed

end
